theory Spec2Isabelle
  imports Main
begin

section \<open>The contact endpoint of server.js\<close>

text \<open>
  The repository is one file, \<^verbatim>\<open>server.js\<close>: an Express application with a single
  route \<^verbatim>\<open>POST /api/contact\<close>. The route first runs the upload middleware
  \<^verbatim>\<open>upload.array("attachments", 5)\<close> and then an asynchronous handler whose whole body
  sits in one \<^verbatim>\<open>try\<close>/\<^verbatim>\<open>catch\<close>.

  JavaScript strings are modelled as \<^typ>\<open>string\<close>. Everything the handler reads from
  outside (the form payload, the environment, the clock) is an argument; everything it
  changes (the document store, the mails handed to the relay) is a field of an explicit
  \<open>world\<close> that is passed in and returned. Everything that may throw returns a sum with
  the error on the left. Console output is not modelled.
\<close>

subsection \<open>JavaScript values of the form payload\<close>

text \<open>
  A value of \<^verbatim>\<open>req.body\<close> is a string, an array (a repeated field), or a nested object
  (a field name with a bracketed path, as in \<^verbatim>\<open>company[name]\<close>); arrays and objects hold
  values of the same kinds. A key that is missing reads as \<^verbatim>\<open>undefined\<close>, which is
  \<open>None\<close> here. The nested objects of the body have no prototype.
\<close>

datatype field = Str string | Arr "field list" | Obj "(string \<times> field) list"

type_synonym jsval = "field option"

datatype error = TypeError | PersistenceError | MailError

text \<open>
  Truthiness, as \<^verbatim>\<open>!v\<close> and \<^verbatim>\<open>||\<close> test it: \<^verbatim>\<open>undefined\<close> and the empty string are
  falsy; every other string, every array (the empty one too) and every object is truthy.
\<close>

fun truthy :: "jsval \<Rightarrow> bool" where
  "truthy None = False"
| "truthy (Some (Str s)) = (s \<noteq> [])"
| "truthy (Some (Arr xs)) = True"
| "truthy (Some (Obj kvs)) = True"

text \<open>\<^verbatim>\<open>a || b\<close>: the left operand when it is truthy, the right one otherwise.\<close>

definition js_or :: "jsval \<Rightarrow> jsval \<Rightarrow> jsval" where
  "js_or a b = (if truthy a then a else b)"

text \<open>Strings put together with a separator between them.\<close>

fun join :: "string \<Rightarrow> string list \<Rightarrow> string" where
  "join sep [] = []"
| "join sep [x] = x"
| "join sep (x # y # ys) = x @ sep @ join sep (y # ys)"

text \<open>
  String conversion, as a template literal \<^verbatim>\<open>`${v}`\<close> and \<^verbatim>\<open>Array.prototype.join\<close>
  perform it. A string is itself; an array is its elements, converted from left to right
  and joined with a comma; an object without prototype has nothing to convert it and the
  conversion throws a \<^verbatim>\<open>TypeError\<close>.
\<close>

fun field_string :: "field \<Rightarrow> error + string"
  and fields_strings :: "field list \<Rightarrow> error + string list" where
  "field_string (Str s) = Inr s"
| "field_string (Arr xs) =
     (case fields_strings xs of Inl err \<Rightarrow> Inl err | Inr ss \<Rightarrow> Inr (join '','' ss))"
| "field_string (Obj kvs) = Inl TypeError"
| "fields_strings [] = Inr []"
| "fields_strings (x # xs) =
     (case field_string x of
        Inl err \<Rightarrow> Inl err
      | Inr s \<Rightarrow> (case fields_strings xs of Inl err \<Rightarrow> Inl err | Inr ss \<Rightarrow> Inr (s # ss)))"

fun to_string :: "jsval \<Rightarrow> error + string" where
  "to_string None = Inr ''undefined''"
| "to_string (Some f) = field_string f"

text \<open>\<^verbatim>\<open>xs.join(sep)\<close> on an array of values.\<close>

definition join_array :: "string \<Rightarrow> field list \<Rightarrow> error + string" where
  "join_array sep xs =
     (case fields_strings xs of Inl err \<Rightarrow> Inl err | Inr ss \<Rightarrow> Inr (join sep ss))"

subsection \<open>normalizeArray (lines 82-86)\<close>

text \<open>
  \<^verbatim>\<open>
  function normalizeArray(value) {
    if (!value) return [];
    if (Array.isArray(value)) return value;
    return [value];
  }
  \<close>
\<close>

fun normalizeArray :: "jsval \<Rightarrow> field list" where
  "normalizeArray v =
     (if \<not> truthy v then []
      else case v of
        Some (Arr xs) \<Rightarrow> xs
      | Some f \<Rightarrow> [f]
      | None \<Rightarrow> [])"

subsection \<open>Stored file names (lines 56-62)\<close>

text \<open>
  \<^verbatim>\<open>
  filename: (req, file, cb) => {
    const safeName = file.originalname.replace(/[^a-zA-Z0-9._-]/g, "_");
    cb(null, `${Date.now()}-${safeName}`);
  }
  \<close>
  The character class of the regular expression, by character code. Characters are
  eight-bit here; the expression has no flag besides \<^verbatim>\<open>g\<close>, so it looks at one code
  unit at a time.
\<close>

definition in_class :: "char \<Rightarrow> bool" where
  "in_class c =
     (let n = (of_char c :: nat)
      in (97 \<le> n \<and> n \<le> 122) \<or> (65 \<le> n \<and> n \<le> 90) \<or> (48 \<le> n \<and> n \<le> 57)
         \<or> c = CHR ''.'' \<or> c = CHR ''_'' \<or> c = CHR ''-'')"

text \<open>
  \<^verbatim>\<open>s.replace(/[^...]/g, r)\<close>: a scan from the left that replaces every character
  outside the class by \<open>r\<close> and copies the others.
\<close>

fun replace_outside :: "(char \<Rightarrow> bool) \<Rightarrow> string \<Rightarrow> string \<Rightarrow> string" where
  "replace_outside cls r [] = []"
| "replace_outside cls r (c # cs) =
     (if cls c then c # replace_outside cls r cs else r @ replace_outside cls r cs)"

definition safeName :: "string \<Rightarrow> string" where
  "safeName originalname = replace_outside in_class ''_'' originalname"

text \<open>
  \<^verbatim>\<open>Date.now()\<close> is the number of milliseconds since the epoch, a natural number; a
  template literal prints it in decimal, most significant digit first and with no
  leading zero.
\<close>

definition digit_char :: "nat \<Rightarrow> char" where
  "digit_char d = char_of (48 + d)"

fun decimal :: "nat \<Rightarrow> string" where
  "decimal n = (if n < 10 then [digit_char n] else decimal (n div 10) @ [digit_char (n mod 10)])"

declare decimal.simps [simp del]

definition storage_filename :: "nat \<Rightarrow> string \<Rightarrow> string" where
  "storage_filename now originalname = decimal now @ ''-'' @ safeName originalname"

text \<open>Reading decimal digits back, for stating what a printed number denotes.\<close>

definition is_digit :: "char \<Rightarrow> bool" where
  "is_digit c = (let n = (of_char c :: nat) in 48 \<le> n \<and> n \<le> 57)"

definition digits_value :: "string \<Rightarrow> nat" where
  "digits_value ds = foldl (\<lambda>acc c. 10 * acc + (of_char c - 48)) 0 ds"

subsection \<open>Configuration read from the environment\<close>

text \<open>
  \<^verbatim>\<open>process.env\<close> maps names to strings; a variable that is not set reads as
  \<^verbatim>\<open>undefined\<close>.
\<close>

type_synonym env = "string \<Rightarrow> string option"

definition getenv :: "env \<Rightarrow> string \<Rightarrow> jsval" where
  "getenv e k = map_option Str (e k)"

text \<open>Line 19: \<^verbatim>\<open>const mongoUri = process.env.MONGODB_URI;\<close>\<close>

definition mongoUri :: "env \<Rightarrow> jsval" where
  "mongoUri e = getenv e ''MONGODB_URI''"

text \<open>
  \<^verbatim>\<open>parseInt(s, 10)\<close>: leading white space is skipped, one sign is read, then the
  longest run of decimal digits; with no digit the result is \<^verbatim>\<open>NaN\<close>, which is \<open>None\<close>.
  (JavaScript rounds results beyond \<open>2^53\<close>; the model keeps them exact.)
\<close>

definition is_js_space :: "char \<Rightarrow> bool" where
  "is_js_space c = ((of_char c :: nat) \<in> set [9, 10, 11, 12, 13, 32, 160])"

definition parseInt10 :: "string \<Rightarrow> int option" where
  "parseInt10 s =
     (let t = dropWhile is_js_space s;
          neg = (case t of [] \<Rightarrow> False | c # _ \<Rightarrow> c = CHR ''-'');
          u = (case t of [] \<Rightarrow> [] | c # r \<Rightarrow> if c = CHR ''-'' \<or> c = CHR ''+'' then r else t);
          ds = takeWhile is_digit u
      in if ds = [] then None
         else Some (if neg then - int (digits_value ds) else int (digits_value ds)))"

subsection \<open>Uploaded files and the records built from them\<close>

text \<open>
  Lines 114-120 copy five properties of every element of \<^verbatim>\<open>req.files\<close>:
  \<^verbatim>\<open>
  const attachments = (req.files || []).map((file) => ({
    originalname: file.originalname, filename: file.filename, path: file.path,
    mimetype: file.mimetype, size: file.size }));
  \<close>
  The file object of the upload middleware has these five and three more. The property
  \<^verbatim>\<open>size\<close> is called \<open>size_bytes\<close> here.
\<close>

record attachment =
  originalname :: string
  filename :: string
  path :: string
  mimetype :: string
  size_bytes :: nat

record multer_file = attachment +
  fieldname :: string
  encoding :: string
  destination :: string

type_synonym body = "string \<Rightarrow> jsval"

text \<open>
  What the handler finds on the request. Both properties are set by the upload
  middleware; on a request it did not parse both are \<^verbatim>\<open>undefined\<close>, which is \<open>None\<close>.
\<close>

record request =
  body :: "body option"
  files :: "multer_file list option"

definition attachments_of :: "request \<Rightarrow> attachment list" where
  "attachments_of req =
     map (\<lambda>file. \<lparr>originalname = originalname file, filename = filename file, path = path file,
                  mimetype = mimetype file, size_bytes = size_bytes file\<rparr>)
         (case files req of None \<Rightarrow> [] | Some fs \<Rightarrow> fs)"

subsection \<open>The multi-value fields (lines 106-108)\<close>

text \<open>
  \<^verbatim>\<open>
  const platform_required = normalizeArray(req.body["platform_required[]"] || req.body.platform_required);
  const mvp_purpose = normalizeArray(req.body["mvp_purpose[]"] || req.body.mvp_purpose);
  const discussion_mode = normalizeArray(req.body["discussion_mode[]"] || req.body.discussion_mode);
  \<close>
\<close>

definition platform_required_of :: "body \<Rightarrow> field list" where
  "platform_required_of b = normalizeArray (js_or (b ''platform_required[]'') (b ''platform_required''))"

definition mvp_purpose_of :: "body \<Rightarrow> field list" where
  "mvp_purpose_of b = normalizeArray (js_or (b ''mvp_purpose[]'') (b ''mvp_purpose''))"

definition discussion_mode_of :: "body \<Rightarrow> field list" where
  "discussion_mode_of b = normalizeArray (js_or (b ''discussion_mode[]'') (b ''discussion_mode''))"

subsection \<open>The document handed to the store (lines 125-144)\<close>

record submission =
  created_at :: string
  full_name :: jsval
  email :: jsval
  phone :: jsval
  company :: jsval
  build_type :: jsval
  project_type :: jsval
  industry :: jsval
  platform_required :: "field list"
  timeline :: jsval
  startup_stage :: jsval
  budget :: jsval
  message :: jsval
  mvp_validation :: jsval
  mvp_purpose :: "field list"
  discussion_mode :: "field list"
  referral_source :: jsval
  attachments :: "attachment list"

definition submission_doc :: "string \<Rightarrow> body \<Rightarrow> attachment list \<Rightarrow> submission" where
  "submission_doc createdAt b atts =
     \<lparr>created_at = createdAt,
      full_name = b ''full_name'',
      email = b ''email'',
      phone = b ''phone'',
      company = js_or (b ''company'') (Some (Str [])),
      build_type = js_or (b ''build_type'') (Some (Str [])),
      project_type = js_or (b ''project_type'') (Some (Str [])),
      industry = js_or (b ''industry'') (Some (Str [])),
      platform_required = platform_required_of b,
      timeline = js_or (b ''timeline'') (Some (Str [])),
      startup_stage = js_or (b ''startup_stage'') (Some (Str [])),
      budget = js_or (b ''budget'') (Some (Str [])),
      message = js_or (b ''message'') (Some (Str [])),
      mvp_validation = js_or (b ''mvp_validation'') (Some (Str [])),
      mvp_purpose = mvp_purpose_of b,
      discussion_mode = discussion_mode_of b,
      referral_source = js_or (b ''referral_source'') (Some (Str [])),
      attachments = atts\<rparr>"

subsection \<open>The mail (lines 158-199)\<close>

record transport =
  host :: jsval
  port :: "int option"
  secure :: bool
  auth_user :: jsval
  auth_pass :: jsval

text \<open>
  The values of the environment are strings, and so is the literal \<^verbatim>\<open>"587"\<close>: what
  \<^verbatim>\<open>parseInt\<close> receives at line 160 is a string.
\<close>

definition smtp_port_text :: "env \<Rightarrow> string" where
  "smtp_port_text e = (case e ''SMTP_PORT'' of None \<Rightarrow> ''587'' | Some s \<Rightarrow> if s \<noteq> [] then s else ''587'')"

definition transport_options :: "env \<Rightarrow> transport" where
  "transport_options e =
     \<lparr>host = getenv e ''SMTP_HOST'',
      port = parseInt10 (smtp_port_text e),
      secure = (getenv e ''SMTP_SECURE'' = Some (Str ''true'')),
      auth_user = getenv e ''SMTP_USER'',
      auth_pass = getenv e ''SMTP_PASS''\<rparr>"

text \<open>
  The pieces of lines 168-187. \<open>template\<close> is a template literal with one hole at its
  end, \<^verbatim>\<open>`prefix${v}`\<close>; it throws when the conversion of the value throws.
  \<open>val_or_dash\<close> is \<^verbatim>\<open>v || "-"\<close> converted to a string, \<open>joined_or_dash\<close> is
  \<^verbatim>\<open>xs.join(", ") || "-"\<close>.
\<close>

definition template :: "string \<Rightarrow> error + string \<Rightarrow> error + string" where
  "template prefix r = (case r of Inl err \<Rightarrow> Inl err | Inr s \<Rightarrow> Inr (prefix @ s))"

definition str_or_dash :: "string \<Rightarrow> string" where
  "str_or_dash s = (if s \<noteq> [] then s else ''-'')"

definition val_or_dash :: "jsval \<Rightarrow> error + string" where
  "val_or_dash v = to_string (js_or v (Some (Str ''-'')))"

definition joined_or_dash :: "field list \<Rightarrow> error + string" where
  "joined_or_dash xs =
     (case join_array '', '' xs of Inl err \<Rightarrow> Inl err | Inr s \<Rightarrow> Inr (str_or_dash s))"

definition newline :: string where
  "newline = [CHR 0x0A]"

text \<open>
  The elements of an array literal are evaluated from left to right, and the first one
  that throws ends the evaluation.
\<close>

fun all_ok :: "(error + 'a) list \<Rightarrow> error + 'a list" where
  "all_ok [] = Inr []"
| "all_ok (r # rs) =
     (case r of
        Inl err \<Rightarrow> Inl err
      | Inr x \<Rightarrow> (case all_ok rs of Inl err \<Rightarrow> Inl err | Inr xs \<Rightarrow> Inr (x # xs)))"

text \<open>
  The last element, \<^verbatim>\<open>message || "-"\<close>, is not a template literal; it is converted by
  the \<^verbatim>\<open>join\<close> of line 187, after the others.
\<close>

definition emailBody :: "body \<Rightarrow> error + string" where
  "emailBody b =
     (case all_ok
        [template ''Full Name: '' (to_string (b ''full_name'')),
         template ''Email: '' (to_string (b ''email'')),
         template ''Phone: '' (to_string (b ''phone'')),
         template ''Company: '' (val_or_dash (b ''company'')),
         template ''Build Type: '' (val_or_dash (b ''build_type'')),
         template ''Project Type: '' (val_or_dash (b ''project_type'')),
         template ''Industry: '' (val_or_dash (b ''industry'')),
         template ''Platform Required: '' (joined_or_dash (platform_required_of b)),
         template ''Timeline: '' (val_or_dash (b ''timeline'')),
         template ''Startup Stage: '' (val_or_dash (b ''startup_stage'')),
         template ''Budget: '' (val_or_dash (b ''budget'')),
         template ''MVP Validation: '' (val_or_dash (b ''mvp_validation'')),
         template ''MVP Purpose: '' (joined_or_dash (mvp_purpose_of b)),
         template ''Discussion Mode: '' (joined_or_dash (discussion_mode_of b)),
         template ''Referral Source: '' (val_or_dash (b ''referral_source'')),
         Inr [],
         Inr ''Message:'',
         val_or_dash (b ''message'')] of
        Inl err \<Rightarrow> Inl err
      | Inr ls \<Rightarrow> Inr (join newline ls))"

record mail_attachment =
  att_filename :: string
  att_path :: string

record mail =
  mail_from :: jsval
  mail_to :: jsval
  mail_replyTo :: jsval
  mail_subject :: string
  mail_text :: string
  mail_attachments :: "mail_attachment list"

text \<open>
  The argument of \<^verbatim>\<open>sendMail\<close> (lines 189-199). The body was built before it; the
  subject is one more template literal.
\<close>

definition mail_options :: "env \<Rightarrow> body \<Rightarrow> attachment list \<Rightarrow> error + mail" where
  "mail_options e b atts =
     (case emailBody b of
        Inl err \<Rightarrow> Inl err
      | Inr body_text \<Rightarrow>
          (case template ''New Inquiry - '' (to_string (b ''full_name'')) of
             Inl err \<Rightarrow> Inl err
           | Inr subject \<Rightarrow>
               Inr \<lparr>mail_from = getenv e ''FROM_EMAIL'',
                    mail_to = getenv e ''TO_EMAIL'',
                    mail_replyTo = b ''email'',
                    mail_subject = subject,
                    mail_text = body_text,
                    mail_attachments =
                      map (\<lambda>file. \<lparr>att_filename = originalname file, att_path = path file\<rparr>)
                        atts\<rparr>))"

subsection \<open>The services and what the handler changes\<close>

text \<open>
  \<^verbatim>\<open>Submission.create\<close> and \<^verbatim>\<open>transporter.sendMail\<close> are calls into the store and the
  mail relay. Whether a call resolves or throws is decided outside the program: it is
  given by \<open>db_accepts\<close> and \<open>smtp_accepts\<close>. A call that resolves has its effect, the
  document inserted or the mail handed over; a call that throws has none.
\<close>

record services =
  db_accepts :: "submission \<Rightarrow> bool"
  smtp_accepts :: "transport \<Rightarrow> mail \<Rightarrow> bool"

record world =
  store :: "submission list"
  outbox :: "(transport \<times> mail) list"

definition Submission_create :: "services \<Rightarrow> submission \<Rightarrow> world \<Rightarrow> error + world" where
  "Submission_create sv doc w =
     (if db_accepts sv doc then Inr (w\<lparr>store := store w @ [doc]\<rparr>) else Inl PersistenceError)"

definition sendMail :: "services \<Rightarrow> transport \<Rightarrow> mail \<Rightarrow> world \<Rightarrow> error + world" where
  "sendMail sv t m w =
     (if smtp_accepts sv t m then Inr (w\<lparr>outbox := outbox w @ [(t, m)]\<rparr>) else Inl MailError)"

subsection \<open>The handler (lines 88-211)\<close>

type_synonym response = "nat \<times> string"

text \<open>
  Line 153, negated: \<^verbatim>\<open>!smtpHost || !smtpUser || !smtpPass || !mailTo || !mailFrom\<close>.
\<close>

definition smtp_missing :: "env \<Rightarrow> bool" where
  "smtp_missing e =
     (\<not> truthy (getenv e ''SMTP_HOST'') \<or> \<not> truthy (getenv e ''SMTP_USER'')
      \<or> \<not> truthy (getenv e ''SMTP_PASS'') \<or> \<not> truthy (getenv e ''TO_EMAIL'')
      \<or> \<not> truthy (getenv e ''FROM_EMAIL''))"

text \<open>
  The body of the \<^verbatim>\<open>try\<close> block. It ends with a response, or with the error that was
  thrown; the world it returns holds what was done before that. The destructuring of
  line 90 throws when \<^verbatim>\<open>req.body\<close> is \<^verbatim>\<open>undefined\<close>. \<open>createdAt\<close> is the text
  \<^verbatim>\<open>new Date().toISOString()\<close> gives at line 122.
\<close>

definition try_block ::
  "env \<Rightarrow> services \<Rightarrow> string \<Rightarrow> request \<Rightarrow> world \<Rightarrow> (error + response) \<times> world" where
  "try_block e sv createdAt req w =
     (case body req of
        None \<Rightarrow> (Inl TypeError, w)
      | Some b \<Rightarrow>
          if \<not> truthy (b ''full_name'') \<or> \<not> truthy (b ''email'') \<or> \<not> truthy (b ''phone'')
          then (Inr (400, ''Missing required fields''), w)
          else
            let atts = attachments_of req in
            case (if truthy (mongoUri e)
                  then Submission_create sv (submission_doc createdAt b atts) w
                  else Inr w) of
              Inl err \<Rightarrow> (Inl err, w)
            | Inr w1 \<Rightarrow>
                if smtp_missing e then (Inr (200, ''OK''), w1)
                else
                  (case mail_options e b atts of
                     Inl err \<Rightarrow> (Inl err, w1)
                   | Inr m \<Rightarrow>
                       (case sendMail sv (transport_options e) m w1 of
                          Inl err \<Rightarrow> (Inl err, w1)
                        | Inr w2 \<Rightarrow> (Inr (200, ''OK''), w2))))"

text \<open>
  \<^verbatim>\<open>catch (error) { return res.status(500).send("Server error"); }\<close>
\<close>

definition contact_handler ::
  "env \<Rightarrow> services \<Rightarrow> string \<Rightarrow> request \<Rightarrow> world \<Rightarrow> response \<times> world" where
  "contact_handler e sv createdAt req w =
     (case try_block e sv createdAt req w of
        (Inl err, w') \<Rightarrow> ((500, ''Server error''), w')
      | (Inr r, w') \<Rightarrow> (r, w'))"

subsection \<open>The upload middleware and the route (lines 56-67 and 88)\<close>

text \<open>
  \<^verbatim>\<open>
  const upload = multer({ storage, limits: { fileSize: 10 * 1024 * 1024 } });
  app.post("/api/contact", upload.array("attachments", 5), async (req, res) => { ... });
  \<close>
  The two limits are written in the source.
\<close>

definition fileSize_limit :: nat where
  "fileSize_limit = 10 * 1024 * 1024"

definition maxCount :: nat where
  "maxCount = 5"

text \<open>One file part of the multipart request, as it arrives.\<close>

record part =
  part_originalname :: string
  part_mimetype :: string
  part_encoding :: string
  part_size :: nat

datatype upload_error = LIMIT_UNEXPECTED_FILE | LIMIT_FILE_SIZE | StorageError

text \<open>
  Modelled from the spec: the function behind \<^verbatim>\<open>upload.array\<close> belongs to the multer
  library and is not part of the source file. Section 4.1 of the specification gives its
  contract: for each file, reject (fail the whole request) if the total of accepted
  files exceeds the count limit or the file exceeds the size limit; otherwise write it
  under a name derived from the current time and the sanitized original name, and return
  the metadata of each file; a write failure aborts the whole request.

  The parts are taken in order; \<open>i\<close> counts the files accepted so far, \<open>clock i\<close> is what
  \<^verbatim>\<open>Date.now()\<close> returns when file \<open>i\<close> is named, \<open>disk_accepts p\<close> tells whether the write
  to path \<open>p\<close> succeeds. The name is the one \<open>storage_filename\<close> gives, and the path joins
  the upload directory and the name.
\<close>

fun upload_files ::
  "nat \<Rightarrow> nat \<Rightarrow> string \<Rightarrow> (nat \<Rightarrow> nat) \<Rightarrow> (string \<Rightarrow> bool) \<Rightarrow> nat \<Rightarrow> part list
     \<Rightarrow> upload_error + multer_file list" where
  "upload_files cnt lim dir clock disk_accepts i [] = Inr []"
| "upload_files cnt lim dir clock disk_accepts i (p # ps) =
     (if cnt \<le> i then Inl LIMIT_UNEXPECTED_FILE
      else if lim < part_size p then Inl LIMIT_FILE_SIZE
      else
        let name = storage_filename (clock i) (part_originalname p);
            file = \<lparr>originalname = part_originalname p, filename = name,
                    path = dir @ ''/'' @ name, mimetype = part_mimetype p,
                    size_bytes = part_size p, fieldname = ''attachments'',
                    encoding = part_encoding p, destination = dir\<rparr>
        in if \<not> disk_accepts (path file) then Inl StorageError
           else case upload_files cnt lim dir clock disk_accepts (Suc i) ps of
                  Inl err \<Rightarrow> Inl err
                | Inr fs \<Rightarrow> Inr (file # fs))"

definition upload_array ::
  "string \<Rightarrow> (nat \<Rightarrow> nat) \<Rightarrow> (string \<Rightarrow> bool) \<Rightarrow> part list \<Rightarrow> upload_error + multer_file list" where
  "upload_array dir clock disk_accepts ps =
     upload_files maxCount fileSize_limit dir clock disk_accepts 0 ps"

text \<open>
  The route runs the middleware first and the handler after it. An error of the
  middleware ends the request there: the handler, and with it the \<^verbatim>\<open>catch\<close> block of
  line 208, is not entered, and the answer is left to the framework. The source
  registers no error handler of its own.
\<close>

datatype outcome = Responded response | Rejected upload_error

record upload_env =
  uploadsDir :: string
  clock :: "nat \<Rightarrow> nat"
  disk_accepts :: "string \<Rightarrow> bool"

text \<open>A multipart request: its form fields and its file parts.\<close>

definition contact_route ::
  "env \<Rightarrow> services \<Rightarrow> upload_env \<Rightarrow> string \<Rightarrow> body \<Rightarrow> part list \<Rightarrow> world \<Rightarrow> outcome \<times> world" where
  "contact_route e sv up createdAt b ps w =
     (case upload_array (uploadsDir up) (clock up) (disk_accepts up) ps of
        Inl err \<Rightarrow> (Rejected err, w)
      | Inr fs \<Rightarrow>
          (case contact_handler e sv createdAt \<lparr>body = Some b, files = Some fs\<rparr> w of
             (r, w') \<Rightarrow> (Responded r, w')))"

text \<open>
  Any request to the route. The middleware parses multipart requests only and passes
  every other request on as it came; lines 74-80 register no parser of their own, so the
  handler then finds neither \<^verbatim>\<open>req.body\<close> nor \<^verbatim>\<open>req.files\<close>.
\<close>

datatype payload = Multipart body "part list" | NotMultipart

definition contact_endpoint ::
  "env \<Rightarrow> services \<Rightarrow> upload_env \<Rightarrow> string \<Rightarrow> payload \<Rightarrow> world \<Rightarrow> outcome \<times> world" where
  "contact_endpoint e sv up createdAt p w =
     (case p of
        Multipart b ps \<Rightarrow> contact_route e sv up createdAt b ps w
      | NotMultipart \<Rightarrow>
          (case contact_handler e sv createdAt \<lparr>body = None, files = None\<rparr> w of
             (r, w') \<Rightarrow> (Responded r, w')))"

subsection \<open>The specification's words, as definitions\<close>

text \<open>
  These definitions are written from the specification and from the amended claims, not
  from the source; the theorems compare the source's functions with them.

  The characters the specification allows in a stored name: ASCII letters, digits,
  full stop, underscore and hyphen.
\<close>

definition allowed_chars :: "char set" where
  "allowed_chars = set ''abcdefghijklmnopqrstuvwxyzABCDEFGHIJKLMNOPQRSTUVWXYZ0123456789._-''"

text \<open>
  A string matches \<^verbatim>\<open>^\d+-my_file___\.pdf$\<close> when its longest prefix of digits is not
  empty and what follows it is exactly \<^verbatim>\<open>-my_file___.pdf\<close>.
\<close>

definition matches_stored_example :: "string \<Rightarrow> bool" where
  "matches_stored_example s =
     (takeWhile is_digit s \<noteq> [] \<and> dropWhile is_digit s = ''-my_file___.pdf'')"

text \<open>A value is empty when the key is absent or holds the empty string.\<close>

definition absent_or_empty :: "jsval \<Rightarrow> bool" where
  "absent_or_empty v = (v = None \<or> v = Some (Str []))"

text \<open>
  The sequence a multi-value field stands for: the bracketed key's value if it is not
  empty, the unbracketed key's value otherwise; nothing for an empty value, one element
  for a string, the elements themselves for a sequence. (A nested object, which is none
  of these, stands as one element.)
\<close>

definition spec_multi_value :: "body \<Rightarrow> string \<Rightarrow> field list" where
  "spec_multi_value b name =
     (case (if absent_or_empty (b (name @ ''[]'')) then b name else b (name @ ''[]'')) of
        None \<Rightarrow> []
      | Some (Str s) \<Rightarrow> (if s = [] then [] else [Str s])
      | Some (Arr xs) \<Rightarrow> xs
      | Some (Obj kvs) \<Rightarrow> [Obj kvs])"

text \<open>
  The text of a value: a string is its own text, a sequence is the texts of its elements
  with commas between them. A nested object has no text; \<open>no_object\<close> tells that a value
  holds none.
\<close>

fun spec_text :: "field \<Rightarrow> string" where
  "spec_text (Str s) = s"
| "spec_text (Arr xs) = join '','' (map spec_text xs)"
| "spec_text (Obj kvs) = []"

fun no_object :: "field \<Rightarrow> bool" where
  "no_object (Str s) = True"
| "no_object (Arr xs) = list_all no_object xs"
| "no_object (Obj kvs) = False"

text \<open>
  One line of the mail body: the label, a colon, and the value, or a hyphen when the
  value is empty. The value of a multi-value field is its sequence joined with a comma
  and a space.
\<close>

definition spec_scalar_line :: "body \<Rightarrow> string \<Rightarrow> string \<Rightarrow> string" where
  "spec_scalar_line b label key =
     label @ '': '' @ (case b key of
                        None \<Rightarrow> ''-''
                      | Some f \<Rightarrow> if f = Str [] then ''-'' else spec_text f)"

definition spec_multi_line :: "body \<Rightarrow> string \<Rightarrow> string \<Rightarrow> string" where
  "spec_multi_line b label key =
     label @ '': '' @ (if join '', '' (map spec_text (spec_multi_value b key)) = [] then ''-''
                      else join '', '' (map spec_text (spec_multi_value b key)))"

text \<open>
  The whole body: the fifteen lines in their order, an empty line, the line
  \<^verbatim>\<open>Message:\<close>, each ended by a line feed, and then the message or a hyphen.
\<close>

definition spec_mail_text :: "body \<Rightarrow> string" where
  "spec_mail_text b =
     concat (map (\<lambda>l. l @ [CHR 0x0A])
       [spec_scalar_line b ''Full Name'' ''full_name'',
        spec_scalar_line b ''Email'' ''email'',
        spec_scalar_line b ''Phone'' ''phone'',
        spec_scalar_line b ''Company'' ''company'',
        spec_scalar_line b ''Build Type'' ''build_type'',
        spec_scalar_line b ''Project Type'' ''project_type'',
        spec_scalar_line b ''Industry'' ''industry'',
        spec_multi_line b ''Platform Required'' ''platform_required'',
        spec_scalar_line b ''Timeline'' ''timeline'',
        spec_scalar_line b ''Startup Stage'' ''startup_stage'',
        spec_scalar_line b ''Budget'' ''budget'',
        spec_scalar_line b ''MVP Validation'' ''mvp_validation'',
        spec_multi_line b ''MVP Purpose'' ''mvp_purpose'',
        spec_multi_line b ''Discussion Mode'' ''discussion_mode'',
        spec_scalar_line b ''Referral Source'' ''referral_source'',
        [],
        ''Message:''])
     @ (case b ''message'' of
          None \<Rightarrow> ''-''
        | Some f \<Rightarrow> if f = Str [] then ''-'' else spec_text f)"

text \<open>
  A form payload can be printed into the mail when none of the fields the mail shows
  holds a nested object.
\<close>

definition value_printable :: "jsval \<Rightarrow> bool" where
  "value_printable v = (case v of None \<Rightarrow> True | Some f \<Rightarrow> no_object f)"

definition mail_printable :: "body \<Rightarrow> bool" where
  "mail_printable b =
     (list_all (\<lambda>key. value_printable (b key))
        [''full_name'', ''email'', ''phone'', ''company'', ''build_type'', ''project_type'',
         ''industry'', ''timeline'', ''startup_stage'', ''budget'', ''mvp_validation'',
         ''referral_source'', ''message'']
      \<and> list_all (\<lambda>key. list_all no_object (spec_multi_value b key))
        [''platform_required'', ''mvp_purpose'', ''discussion_mode''])"

subsection \<open>Sample inputs\<close>

text \<open>The end-to-end example of the specification, section 8.\<close>

definition jane_body :: body where
  "jane_body =
     (\<lambda>k. None)(''full_name'' := Some (Str ''Jane Doe''),
               ''email'' := Some (Str ''jane@x.com''),
               ''phone'' := Some (Str ''555-1234''),
               ''platform_required[]'' := Some (Arr [Str ''web'', Str ''mobile'']))"

text \<open>A form that sends the bracketed key with nothing in it.\<close>

definition blank_bracket_body :: body where
  "blank_bracket_body =
     jane_body(''platform_required[]'' := Some (Str []),
               ''platform_required'' := Some (Str ''web''))"

text \<open>The same form with the e-mail address left out.\<close>

definition no_email_body :: body where
  "no_email_body = jane_body(''email'' := None)"

text \<open>The same form with a company of three spaces.\<close>

definition blank_company_body :: body where
  "blank_company_body = jane_body(''company'' := Some (Str ''   ''))"

text \<open>The same form with a field named \<^verbatim>\<open>company[name]\<close>.\<close>

definition acme_body :: body where
  "acme_body = jane_body(''company'' := Some (Obj [(''name'', Str ''Acme'')]))"

definition brief_part :: part where
  "brief_part = \<lparr>part_originalname = ''brief.txt'', part_mimetype = ''text/plain'',
                  part_encoding = ''7bit'', part_size = 1024\<rparr>"

definition huge_part :: part where
  "huge_part = \<lparr>part_originalname = ''video.mp4'', part_mimetype = ''video/mp4'',
                 part_encoding = ''7bit'', part_size = 10485761\<rparr>"

definition brief_file :: multer_file where
  "brief_file = \<lparr>originalname = ''brief.txt'', filename = ''1700000000000-brief.txt'',
                  path = ''/srv/uploads/1700000000000-brief.txt'', mimetype = ''text/plain'',
                  size_bytes = 1024, fieldname = ''attachments'', encoding = ''7bit'',
                  destination = ''/srv/uploads''\<rparr>"

definition jane_request :: request where
  "jane_request = \<lparr>body = Some jane_body, files = Some [brief_file]\<rparr>"

definition no_email_request :: request where
  "no_email_request = \<lparr>body = Some no_email_body, files = Some [brief_file]\<rparr>"

definition blank_company_request :: request where
  "blank_company_request = \<lparr>body = Some blank_company_body, files = Some [brief_file]\<rparr>"

definition acme_request :: request where
  "acme_request = \<lparr>body = Some acme_body, files = Some [brief_file]\<rparr>"

definition created_example :: string where
  "created_example = ''2023-11-14T22:13:20.000Z''"

text \<open>Environments: nothing set; mail set, without port and flag; store and mail both set.\<close>

definition empty_env :: env where
  "empty_env = (\<lambda>k. None)"

definition mail_env :: env where
  "mail_env =
     (\<lambda>k. None)(''SMTP_HOST'' := Some ''smtp.x.com'', ''SMTP_USER'' := Some ''u'',
               ''SMTP_PASS'' := Some ''p'', ''TO_EMAIL'' := Some ''inbox@x.com'',
               ''FROM_EMAIL'' := Some ''site@x.com'')"

definition full_env :: env where
  "full_env =
     mail_env(''MONGODB_URI'' := Some ''mongodb://db'', ''SMTP_PORT'' := Some ''465'',
              ''SMTP_SECURE'' := Some ''true'')"

definition all_up :: services where
  "all_up = \<lparr>db_accepts = (\<lambda>d. True), smtp_accepts = (\<lambda>t m. True)\<rparr>"

definition mail_down :: services where
  "mail_down = \<lparr>db_accepts = (\<lambda>d. True), smtp_accepts = (\<lambda>t m. False)\<rparr>"

definition db_down :: services where
  "db_down = \<lparr>db_accepts = (\<lambda>d. False), smtp_accepts = (\<lambda>t m. True)\<rparr>"

definition empty_world :: world where
  "empty_world = \<lparr>store = [], outbox = []\<rparr>"

definition disk_up :: upload_env where
  "disk_up = \<lparr>uploadsDir = ''/srv/uploads'', clock = (\<lambda>i. 1700000000000 + i),
               disk_accepts = (\<lambda>p. True)\<rparr>"

definition disk_down :: upload_env where
  "disk_down = \<lparr>uploadsDir = ''/srv/uploads'', clock = (\<lambda>i. 1700000000000 + i),
                 disk_accepts = (\<lambda>p. False)\<rparr>"

definition six_parts :: "part list" where
  "six_parts = [brief_part, brief_part, brief_part, brief_part, brief_part, brief_part]"

section \<open>Properties\<close>

subsection \<open>Truthiness and the normalizer\<close>

lemma truthy_iff: "truthy v \<longleftrightarrow> \<not> absent_or_empty v"
  by (cases v rule: truthy.cases) (simp_all add: absent_or_empty_def)

lemma normalize_or_spec:
  "normalizeArray (js_or (b (name @ ''[]'')) (b name)) = spec_multi_value b name"
  by (auto simp: js_or_def spec_multi_value_def absent_or_empty_def
      split: option.splits field.splits)

text \<open>
  C1, as stated, fails: the empty string is a scalar string, and the normalizer maps it
  to the empty sequence, not to the sequence holding it; and a bracketed key that is
  present with the empty string does not take priority over the unbracketed key.
\<close>

theorem c1_empty_string_counterexample:
  "normalizeArray (Some (Str [])) \<noteq> [Str []]
   \<and> blank_bracket_body ''platform_required[]'' = Some (Str [])
   \<and> platform_required (submission_doc created_example blank_bracket_body []) = [Str ''web'']"
  by (simp add: blank_bracket_body_def jane_body_def submission_doc_def
      platform_required_of_def js_or_def)

text \<open>
  C1, amended: for each of the three multi-value fields the record handed to the store
  holds the sequence of the bracketed key's value when that value is not empty (neither
  absent nor the empty string), and of the unbracketed key's value otherwise; an empty
  value gives the empty sequence, a non-empty string the one-element sequence holding
  it, a sequence itself.
\<close>

theorem c1_multi_value_fields:
  "platform_required (submission_doc t b atts) = spec_multi_value b ''platform_required''
   \<and> mvp_purpose (submission_doc t b atts) = spec_multi_value b ''mvp_purpose''
   \<and> discussion_mode (submission_doc t b atts) = spec_multi_value b ''discussion_mode''"
  using normalize_or_spec [of b "''platform_required''"]
    normalize_or_spec [of b "''mvp_purpose''"] normalize_or_spec [of b "''discussion_mode''"]
  by (simp add: submission_doc_def platform_required_of_def mvp_purpose_of_def
      discussion_mode_of_def)

subsection \<open>Stored file names\<close>

lemma of_char_digit_char: "d < 10 \<Longrightarrow> (of_char (digit_char d) :: nat) = 48 + d"
  by (simp add: digit_char_def)

lemma is_digit_digit_char: "d < 10 \<Longrightarrow> is_digit (digit_char d)"
  by (simp add: is_digit_def of_char_digit_char)

lemma decimal_nonempty: "decimal n \<noteq> []"
  by (subst decimal.simps) simp

lemma decimal_all_digits: "list_all is_digit (decimal n)"
proof (induction n rule: decimal.induct)
  case (1 n)
  show ?case
  proof (cases "n < 10")
    case True
    then show ?thesis by (subst decimal.simps) (simp add: is_digit_digit_char)
  next
    case False
    with 1 show ?thesis by (subst decimal.simps) (simp add: is_digit_digit_char)
  qed
qed

lemma digits_value_snoc: "digits_value (ds @ [c]) = 10 * digits_value ds + (of_char c - 48)"
  by (simp add: digits_value_def)

lemma digits_value_decimal: "digits_value (decimal n) = n"
proof (induction n rule: decimal.induct)
  case (1 n)
  show ?case
  proof (cases "n < 10")
    case True
    then show ?thesis by (subst decimal.simps) (simp add: digits_value_def of_char_digit_char)
  next
    case False
    with 1 show ?thesis
      by (subst decimal.simps) (simp add: digits_value_snoc of_char_digit_char)
  qed
qed

lemma allowed_in_class: "c \<in> allowed_chars \<Longrightarrow> in_class c"
  by (auto simp: allowed_chars_def in_class_def)

lemma code_in_allowed:
  "(of_char c :: nat) \<in> of_char ` allowed_chars \<Longrightarrow> c \<in> allowed_chars"
  by (auto simp: image_iff)

lemma between_upt: "lo \<le> (n::nat) \<Longrightarrow> n \<le> hi \<Longrightarrow> n \<in> set [lo..<Suc hi]"
  by auto

lemma in_class_allowed: "in_class c \<Longrightarrow> c \<in> allowed_chars"
proof -
  assume "in_class c"
  then consider "97 \<le> (of_char c :: nat) \<and> (of_char c :: nat) \<le> 122"
    | "65 \<le> (of_char c :: nat) \<and> (of_char c :: nat) \<le> 90"
    | "48 \<le> (of_char c :: nat) \<and> (of_char c :: nat) \<le> 57"
    | "c = CHR ''.'' \<or> c = CHR ''_'' \<or> c = CHR ''-''"
    by (auto simp: in_class_def Let_def)
  then show ?thesis
  proof cases
    case 1
    then have "(of_char c :: nat) \<in> set [97..<Suc 122]" by (simp only: between_upt)
    then have "(of_char c :: nat) \<in> of_char ` allowed_chars"
      unfolding allowed_chars_def by simp blast
    then show ?thesis by (rule code_in_allowed)
  next
    case 2
    then have "(of_char c :: nat) \<in> set [65..<Suc 90]" by (simp only: between_upt)
    then have "(of_char c :: nat) \<in> of_char ` allowed_chars"
      unfolding allowed_chars_def by simp blast
    then show ?thesis by (rule code_in_allowed)
  next
    case 3
    then have "(of_char c :: nat) \<in> set [48..<Suc 57]" by (simp only: between_upt)
    then have "(of_char c :: nat) \<in> of_char ` allowed_chars"
      unfolding allowed_chars_def by simp blast
    then show ?thesis by (rule code_in_allowed)
  next
    case 4
    then show ?thesis by (auto simp: allowed_chars_def)
  qed
qed

lemma in_class_iff: "in_class c \<longleftrightarrow> c \<in> allowed_chars"
  using allowed_in_class in_class_allowed by blast

lemma replace_outside_map: "replace_outside cls [r] s = map (\<lambda>c. if cls c then c else r) s"
  by (induction s) simp_all

lemma safeName_map: "safeName s = map (\<lambda>c. if c \<in> allowed_chars then c else CHR ''_'') s"
  by (simp add: safeName_def replace_outside_map in_class_iff)

lemma digits_then_hyphen:
  "list_all is_digit ds \<Longrightarrow>
   takeWhile is_digit (ds @ CHR ''-'' # r) = ds \<and> dropWhile is_digit (ds @ CHR ''-'' # r) = CHR ''-'' # r"
  by (induction ds) (simp_all add: is_digit_def)

text \<open>
  C7: the stored name is the decimal print of the timestamp (digits only, at least one,
  reading back as the timestamp), a hyphen, and the original name with every character
  outside the allowed ones replaced by an underscore; for \<^verbatim>\<open>my file!@#.pdf\<close> it is the
  digits followed by \<^verbatim>\<open>-my_file___.pdf\<close>, so it matches the pattern of the specification.
\<close>

theorem c7_stored_filename:
  "storage_filename now name =
     decimal now @ ''-'' @ map (\<lambda>c. if c \<in> allowed_chars then c else CHR ''_'') name
   \<and> decimal now \<noteq> [] \<and> list_all is_digit (decimal now) \<and> digits_value (decimal now) = now
   \<and> storage_filename now ''my file!@#.pdf'' = decimal now @ ''-my_file___.pdf''
   \<and> matches_stored_example (storage_filename now ''my file!@#.pdf'')"
proof -
  have name: "storage_filename now name =
      decimal now @ ''-'' @ map (\<lambda>c. if c \<in> allowed_chars then c else CHR ''_'') name"
    by (simp add: storage_filename_def safeName_map)
  have ex: "storage_filename now ''my file!@#.pdf'' = decimal now @ ''-my_file___.pdf''"
    by (simp add: storage_filename_def safeName_def in_class_def)
  have "matches_stored_example (decimal now @ CHR ''-'' # ''my_file___.pdf'')"
    unfolding matches_stored_example_def
    using digits_then_hyphen [OF decimal_all_digits, of now "''my_file___.pdf''"]
    by (simp add: decimal_nonempty)
  with ex have "matches_stored_example (storage_filename now ''my file!@#.pdf'')"
    by simp
  with name ex show ?thesis
    by (simp add: decimal_nonempty decimal_all_digits digits_value_decimal)
qed

subsection \<open>Conversion to strings and the mail body\<close>

lemma conversion_char:
  "field_string f = (if no_object f then Inr (spec_text f) else Inl TypeError)"
  "fields_strings xs = (if list_all no_object xs then Inr (map spec_text xs) else Inl TypeError)"
  by (induction f and xs rule: field_string_fields_strings.induct) simp_all

lemma join_array_char:
  "join_array sep xs =
     (if list_all no_object xs then Inr (join sep (map spec_text xs)) else Inl TypeError)"
  by (simp add: join_array_def conversion_char)

lemma val_or_dash_char:
  "val_or_dash v =
     (if value_printable v
      then Inr (case v of None \<Rightarrow> ''-'' | Some f \<Rightarrow> if f = Str [] then ''-'' else spec_text f)
      else Inl TypeError)"
  by (cases v rule: truthy.cases)
    (simp_all add: val_or_dash_def js_or_def value_printable_def conversion_char)

lemma required_char:
  "truthy v \<Longrightarrow>
   to_string v =
     (if value_printable v
      then Inr (case v of None \<Rightarrow> ''-'' | Some f \<Rightarrow> if f = Str [] then ''-'' else spec_text f)
      else Inl TypeError)"
  by (cases v rule: truthy.cases) (simp_all add: value_printable_def conversion_char)

lemma joined_or_dash_char:
  "joined_or_dash xs =
     (if list_all no_object xs
      then Inr (if join '', '' (map spec_text xs) = [] then ''-'' else join '', '' (map spec_text xs))
      else Inl TypeError)"
  by (simp add: joined_or_dash_def join_array_char str_or_dash_def)

lemma multi_value_of_spec:
  "platform_required_of b = spec_multi_value b ''platform_required''"
  "mvp_purpose_of b = spec_multi_value b ''mvp_purpose''"
  "discussion_mode_of b = spec_multi_value b ''discussion_mode''"
  using normalize_or_spec [of b "''platform_required''"]
    normalize_or_spec [of b "''mvp_purpose''"] normalize_or_spec [of b "''discussion_mode''"]
  by (simp_all add: platform_required_of_def mvp_purpose_of_def discussion_mode_of_def)

lemma emailBody_char:
  assumes "truthy (b ''full_name'')" and "truthy (b ''email'')" and "truthy (b ''phone'')"
  shows "emailBody b = (if mail_printable b then Inr (spec_mail_text b) else Inl TypeError)"
proof (cases "mail_printable b")
  case True
  then show ?thesis
    using assms
    by (simp add: emailBody_def template_def required_char val_or_dash_char joined_or_dash_char
        multi_value_of_spec mail_printable_def spec_mail_text_def spec_scalar_line_def
        spec_multi_line_def newline_def)
next
  case False
  then show ?thesis
    using assms
    by (simp add: emailBody_def template_def required_char val_or_dash_char joined_or_dash_char
        multi_value_of_spec mail_printable_def) blast
qed


lemma mail_options_char:
  assumes "b ''full_name'' = Some name" and "truthy (b ''full_name'')"
    and "truthy (b ''email'')" and "truthy (b ''phone'')"
  shows "mail_options e b atts =
     (if mail_printable b
      then Inr \<lparr>mail_from = getenv e ''FROM_EMAIL'', mail_to = getenv e ''TO_EMAIL'',
                mail_replyTo = b ''email'',
                mail_subject = ''New Inquiry - '' @ spec_text name,
                mail_text = spec_mail_text b,
                mail_attachments =
                  map (\<lambda>file. \<lparr>att_filename = originalname file, att_path = path file\<rparr>) atts\<rparr>
      else Inl TypeError)"
proof (cases "mail_printable b")
  case True
  then have "no_object name"
    using assms(1) by (simp add: mail_printable_def value_printable_def)
  with True assms show ?thesis
    by (simp add: mail_options_def emailBody_char template_def conversion_char)
next
  case False
  with assms show ?thesis by (simp add: mail_options_def emailBody_char)
qed

subsection \<open>The handler, case by case\<close>

lemma try_block_missing:
  "body req = Some b \<Longrightarrow>
   \<not> truthy (b ''full_name'') \<or> \<not> truthy (b ''email'') \<or> \<not> truthy (b ''phone'') \<Longrightarrow>
   try_block e sv t req w = (Inr (400, ''Missing required fields''), w)"
  by (simp add: try_block_def)

lemma handler_missing:
  "body req = Some b \<Longrightarrow>
   \<not> truthy (b ''full_name'') \<or> \<not> truthy (b ''email'') \<or> \<not> truthy (b ''phone'') \<Longrightarrow>
   contact_handler e sv t req w = ((400, ''Missing required fields''), w)"
  by (simp add: contact_handler_def try_block_missing)

lemma handler_unparsed:
  "body req = None \<Longrightarrow> contact_handler e sv t req w = ((500, ''Server error''), w)"
  by (simp add: contact_handler_def try_block_def)

text \<open>What a run of the handler adds to the store: nothing, or the one document.\<close>

lemma handler_store:
  "store (snd (contact_handler e sv t req w)) =
     (case body req of
        None \<Rightarrow> store w
      | Some b \<Rightarrow>
          if truthy (b ''full_name'') \<and> truthy (b ''email'') \<and> truthy (b ''phone'')
             \<and> truthy (mongoUri e) \<and> db_accepts sv (submission_doc t b (attachments_of req))
          then store w @ [submission_doc t b (attachments_of req)]
          else store w)"
  by (auto simp: contact_handler_def try_block_def Let_def Submission_create_def sendMail_def
      split: sum.splits option.splits)

lemma handler_outbox:
  "outbox (snd (contact_handler e sv t req w)) =
     (case body req of
        None \<Rightarrow> outbox w
      | Some b \<Rightarrow>
          if truthy (b ''full_name'') \<and> truthy (b ''email'') \<and> truthy (b ''phone'')
             \<and> (truthy (mongoUri e) \<longrightarrow> db_accepts sv (submission_doc t b (attachments_of req)))
             \<and> \<not> smtp_missing e
          then (case mail_options e b (attachments_of req) of
                  Inl err \<Rightarrow> outbox w
                | Inr m \<Rightarrow> if smtp_accepts sv (transport_options e) m
                           then outbox w @ [(transport_options e, m)] else outbox w)
          else outbox w)"
  by (auto simp: contact_handler_def try_block_def Let_def Submission_create_def sendMail_def
      split: sum.splits option.splits)

lemma handler_response:
  "fst (contact_handler e sv t req w) =
     (case body req of
        None \<Rightarrow> (500, ''Server error'')
      | Some b \<Rightarrow>
          if \<not> (truthy (b ''full_name'') \<and> truthy (b ''email'') \<and> truthy (b ''phone''))
          then (400, ''Missing required fields'')
          else if truthy (mongoUri e) \<and> \<not> db_accepts sv (submission_doc t b (attachments_of req))
          then (500, ''Server error'')
          else if smtp_missing e then (200, ''OK'')
          else (case mail_options e b (attachments_of req) of
                  Inl err \<Rightarrow> (500, ''Server error'')
                | Inr m \<Rightarrow> if smtp_accepts sv (transport_options e) m then (200, ''OK'')
                           else (500, ''Server error'')))"
  by (auto simp: contact_handler_def try_block_def Let_def Submission_create_def sendMail_def
      split: sum.splits option.splits)

lemma route_rejected:
  "upload_array (uploadsDir up) (clock up) (disk_accepts up) ps = Inl err \<Longrightarrow>
     contact_route e sv up t b ps w = (Rejected err, w)"
  by (simp add: contact_route_def)

lemma route_accepted:
  "upload_array (uploadsDir up) (clock up) (disk_accepts up) ps = Inr fs \<Longrightarrow>
     contact_route e sv up t b ps w =
       (Responded (fst (contact_handler e sv t \<lparr>body = Some b, files = Some fs\<rparr> w)),
        snd (contact_handler e sv t \<lparr>body = Some b, files = Some fs\<rparr> w))"
  by (simp add: contact_route_def split: prod.splits)

lemma six_parts_rejected:
  "upload_array (uploadsDir disk_up) (clock disk_up) (disk_accepts disk_up) six_parts
     = Inl LIMIT_UNEXPECTED_FILE"
  by (simp add: upload_array_def maxCount_def fileSize_limit_def disk_up_def brief_part_def
      six_parts_def)

lemma handler_adds_valid:
  "\<exists>new. store (snd (contact_handler e sv t req w)) = store w @ new
     \<and> list_all (\<lambda>d. \<not> absent_or_empty (full_name d) \<and> \<not> absent_or_empty (email d)
                      \<and> \<not> absent_or_empty (phone d)) new"
proof (cases "store (snd (contact_handler e sv t req w)) = store w")
  case True
  then show ?thesis by (intro exI [of _ "[]"]) simp
next
  case False
  then obtain b where b: "body req = Some b"
    by (cases "body req") (simp_all add: handler_store)
  let ?doc = "submission_doc t b (attachments_of req)"
  from False b have "store (snd (contact_handler e sv t req w)) = store w @ [?doc]"
    and "truthy (b ''full_name'')" "truthy (b ''email'')" "truthy (b ''phone'')"
    by (simp_all add: handler_store split: if_splits)
  then show ?thesis
    by (intro exI [of _ "[?doc]"]) (simp add: submission_doc_def truthy_iff)
qed

text \<open>
  C2, as stated, fails in two ways. A request that is not multipart has none of the three
  fields; the handler finds no \<^verbatim>\<open>req.body\<close>, line 90 throws, and the answer is 500 with
  \<^verbatim>\<open>Server error\<close>. A multipart request without e-mail address that carries six files is
  rejected by the upload middleware, before the check of line 110 is reached.
\<close>

theorem c2_check_not_reached_counterexample:
  "contact_endpoint full_env all_up disk_up created_example NotMultipart empty_world
     = (Responded (500, ''Server error''), empty_world)
   \<and> absent_or_empty (no_email_body ''email'')
   \<and> contact_endpoint full_env all_up disk_up created_example (Multipart no_email_body six_parts)
        empty_world
     = (Rejected LIMIT_UNEXPECTED_FILE, empty_world)"
  by (simp add: contact_endpoint_def handler_unparsed route_rejected [OF six_parts_rejected]
      no_email_body_def absent_or_empty_def)

text \<open>
  C2, amended: when the form payload reaches the handler (the request is multipart and
  the upload middleware accepted its files) and one of the three required fields is
  absent or empty, the answer is 400 with \<^verbatim>\<open>Missing required fields\<close> and the store and
  the outbox are left as they were; and whatever any request adds to the store has all
  three fields non-empty.
\<close>

theorem c2_missing_required_fields:
  "(body req = Some b
      \<and> (absent_or_empty (b ''full_name'') \<or> absent_or_empty (b ''email'')
           \<or> absent_or_empty (b ''phone''))
    \<longrightarrow> contact_handler e sv t req w = ((400, ''Missing required fields''), w))
   \<and> (upload_array (uploadsDir up) (clock up) (disk_accepts up) ps = Inr fs
      \<and> (absent_or_empty (b ''full_name'') \<or> absent_or_empty (b ''email'')
           \<or> absent_or_empty (b ''phone''))
    \<longrightarrow> contact_endpoint e sv up t (Multipart b ps) w
          = (Responded (400, ''Missing required fields''), w))
   \<and> (\<exists>new. store (snd (contact_endpoint e sv up t p w)) = store w @ new
         \<and> list_all (\<lambda>d. \<not> absent_or_empty (full_name d) \<and> \<not> absent_or_empty (email d)
                          \<and> \<not> absent_or_empty (phone d)) new)"
proof (intro conjI)
  show "body req = Some b
      \<and> (absent_or_empty (b ''full_name'') \<or> absent_or_empty (b ''email'')
           \<or> absent_or_empty (b ''phone''))
    \<longrightarrow> contact_handler e sv t req w = ((400, ''Missing required fields''), w)"
    using handler_missing [of req b e sv t w] by (simp add: truthy_iff)
next
  show "upload_array (uploadsDir up) (clock up) (disk_accepts up) ps = Inr fs
      \<and> (absent_or_empty (b ''full_name'') \<or> absent_or_empty (b ''email'')
           \<or> absent_or_empty (b ''phone''))
    \<longrightarrow> contact_endpoint e sv up t (Multipart b ps) w
          = (Responded (400, ''Missing required fields''), w)"
    using handler_missing [of "\<lparr>body = Some b, files = Some fs\<rparr>" b e sv t w]
    by (auto simp: contact_endpoint_def route_accepted truthy_iff)
next
  show "\<exists>new. store (snd (contact_endpoint e sv up t p w)) = store w @ new
         \<and> list_all (\<lambda>d. \<not> absent_or_empty (full_name d) \<and> \<not> absent_or_empty (email d)
                          \<and> \<not> absent_or_empty (phone d)) new"
  proof (cases p)
    case NotMultipart
    then show ?thesis
      by (intro exI [of _ "[]"]) (simp add: contact_endpoint_def handler_unparsed)
  next
    case (Multipart b' ps')
    show ?thesis
    proof (cases "upload_array (uploadsDir up) (clock up) (disk_accepts up) ps'")
      case (Inl err)
      with Multipart show ?thesis
        by (intro exI [of _ "[]"]) (simp add: contact_endpoint_def route_rejected)
    next
      case (Inr fs')
      with Multipart show ?thesis
        using handler_adds_valid [of e sv t "\<lparr>body = Some b', files = Some fs'\<rparr>" w]
        by (simp add: contact_endpoint_def route_accepted)
    qed
  qed
qed

theorem c2_missing_required_fields_witness:
  "body no_email_request = Some no_email_body
   \<and> absent_or_empty (no_email_body ''email'')
   \<and> contact_handler full_env all_up created_example no_email_request empty_world
       = ((400, ''Missing required fields''), empty_world)
   \<and> contact_endpoint full_env all_up disk_up created_example (Multipart no_email_body [brief_part])
        empty_world
       = (Responded (400, ''Missing required fields''), empty_world)"
proof -
  obtain f where one: "upload_array (uploadsDir disk_up) (clock disk_up) (disk_accepts disk_up)
      [brief_part] = Inr [f]"
    by (simp add: upload_array_def maxCount_def fileSize_limit_def disk_up_def brief_part_def
        Let_def)
  have a: "absent_or_empty (no_email_body ''email'')"
    by (simp add: no_email_body_def absent_or_empty_def)
  have b: "body no_email_request = Some no_email_body"
    by (simp add: no_email_request_def)
  from c2_missing_required_fields [of no_email_request no_email_body full_env all_up
      created_example empty_world disk_up "[brief_part]" "[f]"] a b one
  show ?thesis by simp
qed

lemma printable_composes:
  assumes "truthy (b ''full_name'')" and "truthy (b ''email'')" and "truthy (b ''phone'')"
    and "mail_printable b"
  shows "\<exists>m. mail_options e b atts = Inr m"
proof -
  from assms(1) obtain name where "b ''full_name'' = Some name"
    by (cases "b ''full_name''") simp_all
  with assms show ?thesis by (simp add: mail_options_char)
qed

lemma jane_valid:
  "truthy (jane_body ''full_name'')" "truthy (jane_body ''email'')" "truthy (jane_body ''phone'')"
  by (simp_all add: jane_body_def)

lemma jane_printable: "mail_printable jane_body"
  by (simp add: mail_printable_def value_printable_def spec_multi_value_def absent_or_empty_def
      jane_body_def)

lemma stores_configured:
  "\<not> truthy (mongoUri empty_env)" "\<not> truthy (mongoUri mail_env)" "truthy (mongoUri full_env)"
  by (simp_all add: mongoUri_def getenv_def empty_env_def mail_env_def full_env_def)

lemma mails_configured:
  "smtp_missing empty_env" "\<not> smtp_missing mail_env" "\<not> smtp_missing full_env"
  by (simp_all add: smtp_missing_def getenv_def empty_env_def mail_env_def full_env_def)

text \<open>
  C3, as stated, fails: with the three required fields non-empty strings, the store not
  configured and the relay accepting every mail, a field \<^verbatim>\<open>company[name]\<close> arrives as a
  nested object, the template literal of line 172 throws on it, and the answer is 500
  with \<^verbatim>\<open>Server error\<close>.
\<close>

theorem c3_nested_object_counterexample:
  "acme_body ''full_name'' = Some (Str ''Jane Doe'')
   \<and> acme_body ''email'' = Some (Str ''jane@x.com'')
   \<and> acme_body ''phone'' = Some (Str ''555-1234'')
   \<and> acme_body ''company'' = Some (Obj [(''name'', Str ''Acme'')])
   \<and> contact_handler mail_env all_up created_example acme_request empty_world
       = ((500, ''Server error''), empty_world)"
proof -
  have v: "truthy (acme_body ''full_name'')" "truthy (acme_body ''email'')"
    "truthy (acme_body ''phone'')" "acme_body ''full_name'' = Some (Str ''Jane Doe'')"
    by (simp_all add: acme_body_def jane_body_def)
  have "\<not> mail_printable acme_body"
    by (simp add: mail_printable_def value_printable_def acme_body_def)
  with v have m: "mail_options mail_env acme_body (attachments_of acme_request) = Inl TypeError"
    by (simp add: mail_options_char)
  have r: "fst (contact_handler mail_env all_up created_example acme_request empty_world)
      = (500, ''Server error'')"
    using v m by (simp add: handler_response acme_request_def stores_configured mails_configured)
  have s: "store (snd (contact_handler mail_env all_up created_example acme_request empty_world))
      = store empty_world"
    by (simp add: handler_store acme_request_def stores_configured)
  have x: "outbox (snd (contact_handler mail_env all_up created_example acme_request empty_world))
      = outbox empty_world"
    using m by (simp add: handler_outbox acme_request_def)
  from r s x have "contact_handler mail_env all_up created_example acme_request empty_world
      = ((500, ''Server error''), empty_world)"
    by (cases "contact_handler mail_env all_up created_example acme_request empty_world") simp
  then show ?thesis by (simp add: acme_body_def jane_body_def)
qed

text \<open>
  C3, amended: when the three required fields are non-empty strings, the insert resolves
  or the store is not configured, and the mail is not configured or no field shown in
  the mail holds a nested object and the relay accepts the mail, the handler answers 200
  with \<^verbatim>\<open>OK\<close>. The handler runs after the attachments were saved.
\<close>

theorem c3_valid_submission_ok:
  assumes "body req = Some b"
    and "b ''full_name'' = Some (Str n)" and "n \<noteq> []"
    and "b ''email'' = Some (Str m)" and "m \<noteq> []"
    and "b ''phone'' = Some (Str p)" and "p \<noteq> []"
    and "\<not> truthy (mongoUri e) \<or> db_accepts sv (submission_doc t b (attachments_of req))"
    and "smtp_missing e \<or> mail_printable b"
    and "smtp_missing e
         \<or> (\<forall>ml. mail_options e b (attachments_of req) = Inr ml
                 \<longrightarrow> smtp_accepts sv (transport_options e) ml)"
  shows "fst (contact_handler e sv t req w) = (200, ''OK'')"
proof (cases "smtp_missing e")
  case True
  with assms show ?thesis by (auto simp: handler_response)
next
  case False
  with assms have "mail_printable b" by simp
  with assms obtain ml where ml: "mail_options e b (attachments_of req) = Inr ml"
    using printable_composes [of b e "attachments_of req"] by auto
  with assms False have "smtp_accepts sv (transport_options e) ml" by simp
  with assms False ml show ?thesis by (auto simp: handler_response)
qed

theorem c3_valid_submission_ok_witness:
  "mail_printable jane_body \<and> \<not> smtp_missing full_env
   \<and> fst (contact_handler full_env all_up created_example jane_request empty_world) = (200, ''OK'')"
  using c3_valid_submission_ok [of jane_request jane_body "''Jane Doe''" "''jane@x.com''"
      "''555-1234''" full_env all_up created_example empty_world]
  by (simp add: jane_printable mails_configured)
    (simp add: jane_request_def jane_body_def all_up_def)

text \<open>
  C4: when \<^verbatim>\<open>MONGODB_URI\<close> is unset or empty no request changes the store, whatever the
  store would have answered, and a request with the three required fields whose mail
  step does not fail is answered 200 with \<^verbatim>\<open>OK\<close>.
\<close>

theorem c4_store_not_configured:
  assumes "e ''MONGODB_URI'' = None \<or> e ''MONGODB_URI'' = Some []"
  shows "store (snd (contact_handler e sv t req w)) = store w
    \<and> (body req = Some b
         \<and> \<not> absent_or_empty (b ''full_name'') \<and> \<not> absent_or_empty (b ''email'')
         \<and> \<not> absent_or_empty (b ''phone'')
         \<and> (smtp_missing e
             \<or> (\<exists>m. mail_options e b (attachments_of req) = Inr m
                    \<and> smtp_accepts sv (transport_options e) m))
       \<longrightarrow> fst (contact_handler e sv t req w) = (200, ''OK''))"
proof -
  from assms have "\<not> truthy (mongoUri e)"
    by (auto simp: mongoUri_def getenv_def)
  then show ?thesis
    by (auto simp: handler_store handler_response truthy_iff split: option.splits)
qed

theorem c4_store_not_configured_witness:
  "mail_env ''MONGODB_URI'' = None
   \<and> fst (contact_handler mail_env db_down created_example jane_request empty_world) = (200, ''OK'')
   \<and> store (snd (contact_handler mail_env db_down created_example jane_request empty_world)) = []"
proof -
  obtain m where m: "mail_options mail_env jane_body (attachments_of jane_request) = Inr m"
    using printable_composes [OF jane_valid jane_printable] by blast
  have a: "smtp_accepts db_down (transport_options mail_env) m" by (simp add: db_down_def)
  have u: "mail_env ''MONGODB_URI'' = None" by (simp add: mail_env_def)
  have b: "body jane_request = Some jane_body" by (simp add: jane_request_def)
  have v: "\<not> absent_or_empty (jane_body ''full_name'')" "\<not> absent_or_empty (jane_body ''email'')"
    "\<not> absent_or_empty (jane_body ''phone'')"
    using jane_valid by (simp_all add: truthy_iff)
  from c4_store_not_configured [of mail_env db_down created_example jane_request empty_world
      jane_body] u b v m a
  show ?thesis by (auto simp: empty_world_def)
qed

text \<open>
  C10: when the insert resolves and the send that follows throws, the handler answers
  500 with \<^verbatim>\<open>Server error\<close>, the store holds the inserted document after all that was
  in it, and no mail went out.
\<close>

theorem c10_insert_not_rolled_back:
  assumes "body req = Some b"
    and "truthy (b ''full_name'')" and "truthy (b ''email'')" and "truthy (b ''phone'')"
    and "truthy (mongoUri e)"
    and "db_accepts sv (submission_doc t b (attachments_of req))"
    and "\<not> smtp_missing e"
    and "mail_options e b (attachments_of req) = Inr m"
    and "\<not> smtp_accepts sv (transport_options e) m"
  shows "fst (contact_handler e sv t req w) = (500, ''Server error'')
    \<and> store (snd (contact_handler e sv t req w))
        = store w @ [submission_doc t b (attachments_of req)]
    \<and> outbox (snd (contact_handler e sv t req w)) = outbox w"
  using assms by (simp add: handler_response handler_store handler_outbox)

theorem c10_insert_not_rolled_back_witness:
  "contact_handler full_env mail_down created_example jane_request empty_world
     = ((500, ''Server error''),
        \<lparr>store = [submission_doc created_example jane_body (attachments_of jane_request)],
         outbox = []\<rparr>)"
proof -
  obtain m where m: "mail_options full_env jane_body (attachments_of jane_request) = Inr m"
    using printable_composes [OF jane_valid jane_printable] by blast
  have "fst (contact_handler full_env mail_down created_example jane_request empty_world)
        = (500, ''Server error'')
    \<and> store (snd (contact_handler full_env mail_down created_example jane_request empty_world))
        = store empty_world @ [submission_doc created_example jane_body (attachments_of jane_request)]
    \<and> outbox (snd (contact_handler full_env mail_down created_example jane_request empty_world))
        = outbox empty_world"
    by (rule c10_insert_not_rolled_back [OF _ jane_valid stores_configured(3) _ mails_configured(3) m])
      (simp_all add: jane_request_def mail_down_def)
  then show ?thesis
    by (cases "contact_handler full_env mail_down created_example jane_request empty_world")
      (simp add: empty_world_def)
qed

lemma smtp_missing_iff:
  "smtp_missing e \<longleftrightarrow>
     list_ex (\<lambda>k. e k = None \<or> e k = Some [])
       [''SMTP_HOST'', ''SMTP_USER'', ''SMTP_PASS'', ''TO_EMAIL'', ''FROM_EMAIL'']"
proof -
  have "\<not> truthy (getenv e k) \<longleftrightarrow> e k = None \<or> e k = Some []" for k
    by (cases "e k") (simp_all add: getenv_def)
  then show ?thesis by (simp add: smtp_missing_def)
qed

lemma port_default:
  "e ''SMTP_PORT'' = None \<or> e ''SMTP_PORT'' = Some [] \<Longrightarrow> port (transport_options e) = Some 587"
  by (auto simp: transport_options_def smtp_port_text_def parseInt10_def is_js_space_def
      is_digit_def digits_value_def)

lemma secure_default: "e ''SMTP_SECURE'' = None \<Longrightarrow> \<not> secure (transport_options e)"
  by (simp add: transport_options_def getenv_def)

text \<open>
  C5, as stated, fails for the port and the secure flag: with neither of them set, and
  the other five set, the mail is sent.
\<close>

theorem c5_port_missing_counterexample:
  "mail_env ''SMTP_PORT'' = None \<and> mail_env ''SMTP_SECURE'' = None
   \<and> map fst (outbox (snd (contact_handler mail_env all_up created_example jane_request
                            empty_world)))
       = [transport_options mail_env]
   \<and> map Inr (map snd (outbox (snd (contact_handler mail_env all_up created_example jane_request
                                      empty_world))))
       = [mail_options mail_env jane_body (attachments_of jane_request)]"
proof -
  obtain m where m: "mail_options mail_env jane_body (attachments_of jane_request) = Inr m"
    using printable_composes [OF jane_valid jane_printable] by blast
  have "outbox (snd (contact_handler mail_env all_up created_example jane_request empty_world))
      = [(transport_options mail_env, m)]"
    using m jane_valid
    by (simp add: handler_outbox jane_request_def stores_configured mails_configured all_up_def
        empty_world_def)
  with m show ?thesis by (simp add: mail_env_def)
qed

text \<open>
  C5, amended: host, user name, password, to-address and from-address are required
  together. If one of the five is unset or empty, no mail goes out, and a request with
  the three required fields whose insert does not fail is answered 200 with \<^verbatim>\<open>OK\<close>.
  The port and the secure flag are not required: when the five are set the mail is handed
  to the relay, with port 587 if the port is unset and without the secure flag if the
  flag is unset.
\<close>

theorem c5_mail_not_configured:
  "(list_ex (\<lambda>k. e k = None \<or> e k = Some [])
       [''SMTP_HOST'', ''SMTP_USER'', ''SMTP_PASS'', ''TO_EMAIL'', ''FROM_EMAIL'']
     \<longrightarrow> outbox (snd (contact_handler e sv t req w)) = outbox w
         \<and> (body req = Some b
              \<and> \<not> absent_or_empty (b ''full_name'') \<and> \<not> absent_or_empty (b ''email'')
              \<and> \<not> absent_or_empty (b ''phone'')
              \<and> (\<not> truthy (mongoUri e)
                  \<or> db_accepts sv (submission_doc t b (attachments_of req)))
            \<longrightarrow> fst (contact_handler e sv t req w) = (200, ''OK'')))
   \<and> (\<not> list_ex (\<lambda>k. e k = None \<or> e k = Some [])
          [''SMTP_HOST'', ''SMTP_USER'', ''SMTP_PASS'', ''TO_EMAIL'', ''FROM_EMAIL'']
       \<and> body req = Some b
       \<and> \<not> absent_or_empty (b ''full_name'') \<and> \<not> absent_or_empty (b ''email'')
       \<and> \<not> absent_or_empty (b ''phone'')
       \<and> (\<not> truthy (mongoUri e)
           \<or> db_accepts sv (submission_doc t b (attachments_of req)))
       \<and> mail_options e b (attachments_of req) = Inr m
       \<and> smtp_accepts sv (transport_options e) m
     \<longrightarrow> outbox (snd (contact_handler e sv t req w)) = outbox w @ [(transport_options e, m)]
         \<and> (e ''SMTP_PORT'' = None \<longrightarrow> port (transport_options e) = Some 587)
         \<and> (e ''SMTP_SECURE'' = None \<longrightarrow> \<not> secure (transport_options e)))"
  unfolding smtp_missing_iff [symmetric]
  by (auto simp: handler_outbox handler_response truthy_iff port_default secure_default
      split: option.splits)

theorem c5_mail_not_configured_witness:
  "list_ex (\<lambda>k. empty_env k = None \<or> empty_env k = Some [])
       [''SMTP_HOST'', ''SMTP_USER'', ''SMTP_PASS'', ''TO_EMAIL'', ''FROM_EMAIL'']
   \<and> contact_handler empty_env all_up created_example jane_request empty_world
       = ((200, ''OK''), empty_world)
   \<and> \<not> list_ex (\<lambda>k. mail_env k = None \<or> mail_env k = Some [])
       [''SMTP_HOST'', ''SMTP_USER'', ''SMTP_PASS'', ''TO_EMAIL'', ''FROM_EMAIL'']
   \<and> port (transport_options mail_env) = Some 587"
proof -
  have a: "list_ex (\<lambda>k. empty_env k = None \<or> empty_env k = Some [])
       [''SMTP_HOST'', ''SMTP_USER'', ''SMTP_PASS'', ''TO_EMAIL'', ''FROM_EMAIL'']"
    by (simp add: empty_env_def)
  have b: "\<not> list_ex (\<lambda>k. mail_env k = None \<or> mail_env k = Some [])
       [''SMTP_HOST'', ''SMTP_USER'', ''SMTP_PASS'', ''TO_EMAIL'', ''FROM_EMAIL'']"
    by (simp add: mail_env_def)
  have r: "body jane_request = Some jane_body" by (simp add: jane_request_def)
  have v: "\<not> absent_or_empty (jane_body ''full_name'')" "\<not> absent_or_empty (jane_body ''email'')"
    "\<not> absent_or_empty (jane_body ''phone'')"
    using jane_valid by (simp_all add: truthy_iff)
  note u = stores_configured(1,2)
  obtain m where m: "mail_options mail_env jane_body (attachments_of jane_request) = Inr m"
    using printable_composes [OF jane_valid jane_printable] by blast
  have s: "smtp_accepts all_up (transport_options mail_env) m" by (simp add: all_up_def)
  from c5_mail_not_configured [of empty_env all_up created_example jane_request empty_world
      jane_body] r v u
  have "outbox (snd (contact_handler empty_env all_up created_example jane_request empty_world))
          = outbox empty_world"
    and "fst (contact_handler empty_env all_up created_example jane_request empty_world) = (200, ''OK'')"
    by (simp_all add: empty_env_def)
  moreover have "store (snd (contact_handler empty_env all_up created_example jane_request empty_world))
      = store empty_world"
    using u r by (simp add: handler_store)
  ultimately have "contact_handler empty_env all_up created_example jane_request empty_world
       = ((200, ''OK''), empty_world)"
    by (cases "contact_handler empty_env all_up created_example jane_request empty_world") simp
  moreover from c5_mail_not_configured [of mail_env all_up created_example jane_request empty_world
      jane_body m] r v u m s
  have "port (transport_options mail_env) = Some 587" by (simp add: mail_env_def)
  ultimately show ?thesis using a b by simp
qed

subsection \<open>The mail\<close>

text \<open>
  C6, as stated, fails for blank values: a company of three spaces is not replaced by a
  hyphen, the line of the mail is \<^verbatim>\<open>Company:\<close> followed by four spaces.
\<close>

theorem c6_blank_value_counterexample:
  "blank_company_body ''company'' = Some (Str ''   '')
   \<and> map mail_text (map snd (outbox (snd (contact_handler mail_env all_up created_example
                                            blank_company_request empty_world))))
       = [''Full Name: Jane Doe\<newline>Email: jane@x.com\<newline>Phone: 555-1234\<newline>Company:    \<newline>Build Type: -\<newline>Project Type: -\<newline>Industry: -\<newline>Platform Required: web, mobile\<newline>Timeline: -\<newline>Startup Stage: -\<newline>Budget: -\<newline>MVP Validation: -\<newline>MVP Purpose: -\<newline>Discussion Mode: -\<newline>Referral Source: -\<newline>\<newline>Message:\<newline>-'']"
proof -
  have v: "blank_company_body ''full_name'' = Some (Str ''Jane Doe'')"
    "truthy (blank_company_body ''full_name'')" "truthy (blank_company_body ''email'')"
    "truthy (blank_company_body ''phone'')"
    by (simp_all add: blank_company_body_def jane_body_def)
  have p: "mail_printable blank_company_body"
    by (simp add: mail_printable_def value_printable_def spec_multi_value_def absent_or_empty_def
        blank_company_body_def jane_body_def)
  have t: "spec_mail_text blank_company_body = ''Full Name: Jane Doe\<newline>Email: jane@x.com\<newline>Phone: 555-1234\<newline>Company:    \<newline>Build Type: -\<newline>Project Type: -\<newline>Industry: -\<newline>Platform Required: web, mobile\<newline>Timeline: -\<newline>Startup Stage: -\<newline>Budget: -\<newline>MVP Validation: -\<newline>MVP Purpose: -\<newline>Discussion Mode: -\<newline>Referral Source: -\<newline>\<newline>Message:\<newline>-''"
    by (simp add: spec_mail_text_def spec_scalar_line_def spec_multi_line_def
        spec_multi_value_def absent_or_empty_def blank_company_body_def jane_body_def)
  from v p t show ?thesis
    by (simp add: handler_outbox blank_company_request_def stores_configured mails_configured
        mail_options_char all_up_def empty_world_def)
      (simp add: blank_company_body_def)
qed

text \<open>
  C6, amended: a request that reaches the mail step (required fields present, insert not
  failed, the five mail settings present) and whose mail is composed hands exactly that
  mail to the relay, and it is in the outbox when the relay accepts it. Its subject is
  \<^verbatim>\<open>New Inquiry - \<close> followed by the full name, its sender and recipient are the
  configured from- and to-address, its reply-to is the submitter's e-mail, it has one
  attachment per uploaded file, in order, named by the original file name and read from
  the stored path, and its text is one line per field in the fixed order, with a hyphen
  for an empty value (absent, or the empty string; a value of white space only is
  printed as it is), multi-value fields joined with a comma and a space, then an empty
  line, \<^verbatim>\<open>Message:\<close>, and the message or a hyphen.
\<close>

theorem c6_outgoing_mail:
  assumes "body req = Some b" and "b ''full_name'' = Some name"
    and "truthy (b ''full_name'')" and "truthy (b ''email'')" and "truthy (b ''phone'')"
    and "\<not> truthy (mongoUri e) \<or> db_accepts sv (submission_doc t b (attachments_of req))"
    and "\<not> smtp_missing e"
    and "e ''FROM_EMAIL'' = Some from_address" and "e ''TO_EMAIL'' = Some to_address"
    and "files req = Some fs"
    and "mail_options e b (attachments_of req) = Inr m"
  shows "outbox (snd (contact_handler e sv t req w))
           = (if smtp_accepts sv (transport_options e) m
              then outbox w @ [(transport_options e, m)] else outbox w)
    \<and> mail_subject m = ''New Inquiry - '' @ spec_text name
    \<and> mail_from m = Some (Str from_address)
    \<and> mail_to m = Some (Str to_address)
    \<and> mail_replyTo m = b ''email''
    \<and> length (mail_attachments m) = length fs
    \<and> (\<forall>i < length fs. att_filename (mail_attachments m ! i) = originalname (fs ! i)
                        \<and> att_path (mail_attachments m ! i) = path (fs ! i))
    \<and> mail_text m = spec_mail_text b"
proof -
  have out: "outbox (snd (contact_handler e sv t req w))
           = (if smtp_accepts sv (transport_options e) m
              then outbox w @ [(transport_options e, m)] else outbox w)"
    using assms by (auto simp: handler_outbox)
  have composed: "mail_printable b
    \<and> m = \<lparr>mail_from = getenv e ''FROM_EMAIL'', mail_to = getenv e ''TO_EMAIL'',
           mail_replyTo = b ''email'', mail_subject = ''New Inquiry - '' @ spec_text name,
           mail_text = spec_mail_text b,
           mail_attachments =
             map (\<lambda>file. \<lparr>att_filename = originalname file, att_path = path file\<rparr>)
               (attachments_of req)\<rparr>"
    using assms(11) mail_options_char [OF assms(2,3,4,5), of e "attachments_of req"]
    by (simp split: if_splits)
  with assms(8,9,10) have rest: "mail_subject m = ''New Inquiry - '' @ spec_text name
    \<and> mail_from m = Some (Str from_address) \<and> mail_to m = Some (Str to_address)
    \<and> mail_replyTo m = b ''email''
    \<and> length (mail_attachments m) = length fs
    \<and> (\<forall>i < length fs. att_filename (mail_attachments m ! i) = originalname (fs ! i)
                        \<and> att_path (mail_attachments m ! i) = path (fs ! i))
    \<and> mail_text m = spec_mail_text b"
    by (simp add: getenv_def attachments_of_def)
  from out rest show ?thesis by simp
qed

theorem c6_outgoing_mail_witness:
  "outbox (snd (contact_handler full_env all_up created_example jane_request empty_world))
     = [(transport_options full_env,
         \<lparr>mail_from = Some (Str ''site@x.com''), mail_to = Some (Str ''inbox@x.com''),
          mail_replyTo = Some (Str ''jane@x.com''), mail_subject = ''New Inquiry - Jane Doe'',
          mail_text = ''Full Name: Jane Doe\<newline>Email: jane@x.com\<newline>Phone: 555-1234\<newline>Company: -\<newline>Build Type: -\<newline>Project Type: -\<newline>Industry: -\<newline>Platform Required: web, mobile\<newline>Timeline: -\<newline>Startup Stage: -\<newline>Budget: -\<newline>MVP Validation: -\<newline>MVP Purpose: -\<newline>Discussion Mode: -\<newline>Referral Source: -\<newline>\<newline>Message:\<newline>-'',
          mail_attachments = [\<lparr>att_filename = ''brief.txt'',
                                att_path = ''/srv/uploads/1700000000000-brief.txt''\<rparr>]\<rparr>)]"
proof -
  obtain m where m: "mail_options full_env jane_body (attachments_of jane_request) = Inr m"
    using printable_composes [OF jane_valid jane_printable] by blast
  have r: "body jane_request = Some jane_body" by (simp add: jane_request_def)
  have n: "jane_body ''full_name'' = Some (Str ''Jane Doe'')" by (simp add: jane_body_def)
  have d: "\<not> truthy (mongoUri full_env)
      \<or> db_accepts all_up (submission_doc created_example jane_body (attachments_of jane_request))"
    by (simp add: all_up_def)
  have a: "full_env ''FROM_EMAIL'' = Some ''site@x.com''" "full_env ''TO_EMAIL'' = Some ''inbox@x.com''"
    by (simp_all add: full_env_def mail_env_def)
  have f: "files jane_request = Some [brief_file]" by (simp add: jane_request_def)
  have s: "smtp_accepts all_up (transport_options full_env) m" by (simp add: all_up_def)
  note w = c6_outgoing_mail [OF r n jane_valid d mails_configured(3) a f m, where w = empty_world]
  from w have "outbox (snd (contact_handler full_env all_up created_example jane_request empty_world))
      = (if smtp_accepts all_up (transport_options full_env) m
         then outbox empty_world @ [(transport_options full_env, m)] else outbox empty_world)"
    by (rule conjunct1)
  with s have sent: "outbox (snd (contact_handler full_env all_up created_example jane_request empty_world))
      = outbox empty_world @ [(transport_options full_env, m)]"
    by simp
  from w have "mail_text m = spec_mail_text jane_body"
    by blast
  then have body_text: "mail_text m = ''Full Name: Jane Doe\<newline>Email: jane@x.com\<newline>Phone: 555-1234\<newline>Company: -\<newline>Build Type: -\<newline>Project Type: -\<newline>Industry: -\<newline>Platform Required: web, mobile\<newline>Timeline: -\<newline>Startup Stage: -\<newline>Budget: -\<newline>MVP Validation: -\<newline>MVP Purpose: -\<newline>Discussion Mode: -\<newline>Referral Source: -\<newline>\<newline>Message:\<newline>-''"
    by (simp add: spec_mail_text_def spec_scalar_line_def spec_multi_line_def
        spec_multi_value_def absent_or_empty_def jane_body_def)
  from w have rest: "mail_from m = Some (Str ''site@x.com'')" "mail_to m = Some (Str ''inbox@x.com'')"
    "mail_replyTo m = Some (Str ''jane@x.com'')" "mail_subject m = ''New Inquiry - Jane Doe''"
    by (simp_all add: jane_body_def)
  from w have "length (mail_attachments m) = 1"
    and "att_filename (mail_attachments m ! 0) = originalname brief_file"
    and "att_path (mail_attachments m ! 0) = path brief_file"
    by simp_all
  then have atts: "mail_attachments m = [\<lparr>att_filename = ''brief.txt'',
                                att_path = ''/srv/uploads/1700000000000-brief.txt''\<rparr>]"
    by (cases "mail_attachments m") (simp_all add: brief_file_def)
  have "m = \<lparr>mail_from = Some (Str ''site@x.com''), mail_to = Some (Str ''inbox@x.com''),
          mail_replyTo = Some (Str ''jane@x.com''), mail_subject = ''New Inquiry - Jane Doe'',
          mail_text = ''Full Name: Jane Doe\<newline>Email: jane@x.com\<newline>Phone: 555-1234\<newline>Company: -\<newline>Build Type: -\<newline>Project Type: -\<newline>Industry: -\<newline>Platform Required: web, mobile\<newline>Timeline: -\<newline>Startup Stage: -\<newline>Budget: -\<newline>MVP Validation: -\<newline>MVP Purpose: -\<newline>Discussion Mode: -\<newline>Referral Source: -\<newline>\<newline>Message:\<newline>-'',
          mail_attachments = [\<lparr>att_filename = ''brief.txt'',
                                att_path = ''/srv/uploads/1700000000000-brief.txt''\<rparr>]\<rparr>"
    by (rule mail.equality) (simp_all add: body_text rest atts)
  with sent show ?thesis
    by (simp add: empty_world_def)
qed

subsection \<open>The route\<close>

lemma upload_files_accepts:
  "upload_files cnt lim dir ck dk i ps = Inr fs \<Longrightarrow>
     map size_bytes fs = map part_size ps
     \<and> (ps \<noteq> [] \<longrightarrow> i + length ps \<le> cnt)
     \<and> list_all (\<lambda>p. part_size p \<le> lim) ps"
proof (induction ps arbitrary: i fs)
  case Nil
  then show ?case by simp
next
  case (Cons p ps)
  from Cons.prems obtain f fs' where c: "\<not> cnt \<le> i" "\<not> lim < part_size p"
    and r: "upload_files cnt lim dir ck dk (Suc i) ps = Inr fs'"
    and fs: "fs = f # fs'" "size_bytes f = part_size p"
    by (auto simp: Let_def split: if_splits sum.splits)
  note ih = Cons.IH [OF r]
  from c ih fs show ?case by (cases ps) auto
qed

lemma upload_array_accepts:
  assumes "upload_array dir ck dk ps = Inr fs"
  shows "length fs \<le> 5" and "list_all (\<lambda>f. size_bytes f \<le> 10485760) fs"
    and "length ps \<le> 5" and "list_all (\<lambda>p. part_size p \<le> 10485760) ps"
proof -
  from assms have u: "upload_files 5 10485760 dir ck dk 0 ps = Inr fs"
    by (simp add: upload_array_def maxCount_def fileSize_limit_def)
  note a = upload_files_accepts [OF u]
  from a show "length ps \<le> 5" by (cases ps) simp_all
  from a show "list_all (\<lambda>p. part_size p \<le> 10485760) ps" by simp
  from a have l: "length fs = length ps" by (metis length_map)
  with \<open>length ps \<le> 5\<close> show "length fs \<le> 5" by simp
  from a have "list_all (\<lambda>n. n \<le> 10485760) (map part_size ps)"
    by (simp add: list_all_iff)
  with a have "list_all (\<lambda>n. n \<le> 10485760) (map size_bytes fs)" by simp
  then show "list_all (\<lambda>f. size_bytes f \<le> 10485760) fs" by (simp add: list_all_iff)
qed

text \<open>
  C8: a request with more than five files, or with a file of more than 10 MiB, is
  rejected by the upload middleware, and the handler does not run: the store and the
  outbox are as before. Whenever the handler answers, every document the request added
  to the store has at most five attachments, each of at most 10 MiB.
\<close>

theorem c8_upload_limits:
  "(5 < length ps \<or> list_ex (\<lambda>p. 10 * 1024 * 1024 < part_size p) ps
      \<longrightarrow> (\<exists>err. contact_route e sv up t b ps w = (Rejected err, w)))
   \<and> (\<forall>r w'. contact_route e sv up t b ps w = (Responded r, w')
        \<longrightarrow> (\<exists>new. store w' = store w @ new
               \<and> list_all (\<lambda>d. length (attachments d) \<le> 5
                                \<and> list_all (\<lambda>a. size_bytes a \<le> 10 * 1024 * 1024) (attachments d))
                    new))"
proof (cases "upload_array (uploadsDir up) (clock up) (disk_accepts up) ps")
  case (Inl err)
  then show ?thesis by (simp add: route_rejected)
next
  case (Inr fs)
  note acc = upload_array_accepts [OF Inr]
  let ?req = "\<lparr>body = Some b, files = Some fs\<rparr>"
  let ?doc = "submission_doc t b (attachments_of ?req)"
  have atts: "length (attachments ?doc) \<le> 5
      \<and> list_all (\<lambda>a. size_bytes a \<le> 10 * 1024 * 1024) (attachments ?doc)"
    using acc(1,2) by (simp add: submission_doc_def attachments_of_def list_all_iff)
  have lim: "\<not> (5 < length ps \<or> list_ex (\<lambda>p. 10 * 1024 * 1024 < part_size p) ps)"
    using acc(3,4) by (auto simp: list_all_iff list_ex_iff)
  have "\<exists>new. store (snd (contact_handler e sv t ?req w)) = store w @ new
      \<and> list_all (\<lambda>d. length (attachments d) \<le> 5
                       \<and> list_all (\<lambda>a. size_bytes a \<le> 10 * 1024 * 1024) (attachments d)) new"
  proof (cases "store (snd (contact_handler e sv t ?req w)) = store w")
    case True
    then show ?thesis by (intro exI [of _ "[]"]) simp
  next
    case False
    then have "store (snd (contact_handler e sv t ?req w)) = store w @ [?doc]"
      by (simp add: handler_store split: if_splits)
    with atts show ?thesis by (intro exI [of _ "[?doc]"]) simp
  qed
  with lim show ?thesis by (auto simp: route_accepted [OF Inr])
qed

theorem c8_upload_limits_witness:
  "5 < length [brief_part, brief_part, brief_part, brief_part, brief_part, brief_part]
   \<and> contact_route full_env all_up disk_up created_example jane_body
        [brief_part, brief_part, brief_part, brief_part, brief_part, brief_part] empty_world
       = (Rejected LIMIT_UNEXPECTED_FILE, empty_world)
   \<and> list_ex (\<lambda>p. 10 * 1024 * 1024 < part_size p) [huge_part]
   \<and> contact_route full_env all_up disk_up created_example jane_body [huge_part] empty_world
       = (Rejected LIMIT_FILE_SIZE, empty_world)
   \<and> fst (contact_route full_env all_up disk_up created_example jane_body [brief_part] empty_world)
       = Responded (200, ''OK'')
   \<and> map (\<lambda>d. map size_bytes (attachments d))
         (store (snd (contact_route full_env all_up disk_up created_example jane_body [brief_part]
                        empty_world))) = [[1024]]"
proof -
  have six: "upload_array (uploadsDir disk_up) (clock disk_up) (disk_accepts disk_up)
      [brief_part, brief_part, brief_part, brief_part, brief_part, brief_part]
      = Inl LIMIT_UNEXPECTED_FILE"
    using six_parts_rejected by (simp add: six_parts_def)
  have big: "upload_array (uploadsDir disk_up) (clock disk_up) (disk_accepts disk_up) [huge_part]
      = Inl LIMIT_FILE_SIZE"
    by (simp add: upload_array_def maxCount_def fileSize_limit_def disk_up_def huge_part_def)
  obtain f where one: "upload_array (uploadsDir disk_up) (clock disk_up) (disk_accepts disk_up)
      [brief_part] = Inr [f]" and f: "size_bytes f = 1024"
    by (simp add: upload_array_def maxCount_def fileSize_limit_def disk_up_def brief_part_def
        Let_def)
  let ?req = "\<lparr>body = Some jane_body, files = Some [f]\<rparr>"
  obtain m where m: "mail_options full_env jane_body (attachments_of ?req) = Inr m"
    using printable_composes [OF jane_valid jane_printable] by blast
  have ok: "fst (contact_handler full_env all_up created_example ?req empty_world) = (200, ''OK'')"
    using m jane_valid by (simp add: handler_response all_up_def)
  have st: "store (snd (contact_handler full_env all_up created_example ?req empty_world))
      = [submission_doc created_example jane_body (attachments_of ?req)]"
    using jane_valid by (simp add: handler_store all_up_def stores_configured empty_world_def)
  have t6: "\<exists>err. contact_route full_env all_up disk_up created_example jane_body
        [brief_part, brief_part, brief_part, brief_part, brief_part, brief_part] empty_world
       = (Rejected err, empty_world)"
    using c8_upload_limits [of "[brief_part, brief_part, brief_part, brief_part, brief_part, brief_part]"
      full_env all_up disk_up created_example jane_body empty_world]
    by simp
  have tb: "\<exists>err. contact_route full_env all_up disk_up created_example jane_body [huge_part]
        empty_world = (Rejected err, empty_world)"
    using c8_upload_limits [of "[huge_part]" full_env all_up disk_up created_example jane_body
        empty_world]
    by (simp add: huge_part_def)
  have t1: "\<exists>new. store (snd (contact_handler full_env all_up created_example ?req empty_world))
        = store empty_world @ new
      \<and> list_all (\<lambda>d. length (attachments d) \<le> 5
            \<and> list_all (\<lambda>a. size_bytes a \<le> 10 * 1024 * 1024) (attachments d)) new"
    using c8_upload_limits [of "[brief_part]" full_env all_up disk_up created_example jane_body
        empty_world]
    by (simp add: route_accepted [OF one])
  have sizes: "map (\<lambda>d. map size_bytes (attachments d))
      [submission_doc created_example jane_body (attachments_of ?req)] = [[1024]]"
    by (simp add: submission_doc_def attachments_of_def f)
  have big_ex: "list_ex (\<lambda>p. 10 * 1024 * 1024 < part_size p) [huge_part]"
    by (simp add: huge_part_def)
  from t6 tb t1 sizes big_ex show ?thesis
    by (simp add: route_rejected [OF six] route_rejected [OF big] route_accepted [OF one] ok st)
qed

text \<open>
  C9: the code does not do what the claim says for a storage write failure. The write
  happens in the upload middleware, before the handler; its error never reaches the
  \<^verbatim>\<open>catch\<close> of line 208, so the request is not answered with \<^verbatim>\<open>Server error\<close> by the
  handler but left to the framework's error handling. The same request with a failing
  store, or with a failing relay, is answered 500 with \<^verbatim>\<open>Server error\<close>.
\<close>

theorem c9_storage_failure_not_caught:
  "contact_endpoint full_env all_up disk_down created_example (Multipart jane_body [brief_part])
      empty_world
     = (Rejected StorageError, empty_world)
   \<and> fst (contact_endpoint full_env db_down disk_up created_example (Multipart jane_body [brief_part])
           empty_world)
     = Responded (500, ''Server error'')
   \<and> fst (contact_endpoint full_env mail_down disk_up created_example (Multipart jane_body [brief_part])
           empty_world)
     = Responded (500, ''Server error'')"
proof -
  have down: "upload_array (uploadsDir disk_down) (clock disk_down) (disk_accepts disk_down)
      [brief_part] = Inl StorageError"
    by (simp add: upload_array_def maxCount_def fileSize_limit_def disk_down_def brief_part_def)
  obtain f where one: "upload_array (uploadsDir disk_up) (clock disk_up) (disk_accepts disk_up)
      [brief_part] = Inr [f]"
    by (simp add: upload_array_def maxCount_def fileSize_limit_def disk_up_def brief_part_def
        Let_def)
  let ?req = "\<lparr>body = Some jane_body, files = Some [f]\<rparr>"
  obtain m where m: "mail_options full_env jane_body (attachments_of ?req) = Inr m"
    using printable_composes [OF jane_valid jane_printable] by blast
  have db: "fst (contact_handler full_env db_down created_example ?req empty_world)
      = (500, ''Server error'')"
    using jane_valid by (simp add: handler_response stores_configured db_down_def)
  have ml: "fst (contact_handler full_env mail_down created_example ?req empty_world)
      = (500, ''Server error'')"
    using jane_valid m
    by (simp add: handler_response stores_configured mails_configured mail_down_def)
  from db ml show ?thesis
    by (simp add: contact_endpoint_def route_rejected [OF down] route_accepted [OF one])
qed


end
